theory Spec2Isabelle
  imports Main "HOL-Library.Finite_Map"
begin

section \<open>Audit log events (auditlog/event.go)\<close>

subsection \<open>Data model\<close>

text \<open>
  \<^verbatim>\<open>type Auditable interface { ToAuditableName() string; ToAuditableID() string }\<close>
  A value that implements the interface is represented by what its two methods return.
\<close>

record Auditable =
  ToAuditableName :: string
  ToAuditableID :: string

text \<open>
  \<^verbatim>\<open>type ActionType string\<close> with the four declared constants. The type is an open
  string type: any string converts to it.
\<close>

type_synonym ActionType = string

definition Create :: ActionType where "Create = ''C''"

text \<open>
  Modelled from the spec: the declaration of the type \<^verbatim>\<open>Action\<close> is not part of
  event.go; the spec gives the action name as a string.
\<close>

type_synonym Action = string

text \<open>
  \<^verbatim>\<open>time.Time\<close>, as the number of nanoseconds since Go's zero time, so that the zero
  value of the type is \<open>0\<close>.
\<close>

type_synonym time = int

text \<open>
  The dynamic values an \<^verbatim>\<open>interface{}\<close> of the metadata mapping holds: the nil interface,
  literals, a value whose type implements \<^verbatim>\<open>Auditable\<close>, and a channel as a value of a
  type that has no wire encoding.
\<close>

datatype val =
    VNil
  | VBool bool
  | VInt int
  | VString string
  | VAuditable Auditable
  | VChan

text \<open>The abstract syntax of the JSON text that \<^verbatim>\<open>json.Marshal\<close> produces.\<close>

datatype json =
    JNull
  | JBool bool
  | JNumber int
  | JString string
  | JArray "json list"
  | JObject "(string, json) fmap"

text \<open>
  The error values of the package: the one \<^verbatim>\<open>addMetadata\<close> creates with
  \<^verbatim>\<open>errors.New\<close>, the error of \<^verbatim>\<open>json.Marshal\<close>, and the errors of the transport
  (\<^verbatim>\<open>client.PublishEvent\<close>), which are opaque to this package.
\<close>

datatype error =
    ErrorNew string
  | MarshalError
  | TransportError string

definition capacity_error :: error where
  "capacity_error = ErrorNew ''attempted to add over 500 properties to metadata, ignoring''"

text \<open>
  A Go map is a reference: copying an \<^verbatim>\<open>Event\<close> (every method with a value receiver does)
  copies the reference, not the entries. The field \<^verbatim>\<open>Metadata\<close> is therefore an address
  into a store of maps, \<open>None\<close> being the nil map.
\<close>

type_synonym addr = nat
type_synonym metadata = "(string, val) fmap"

record Event =
  Group :: string
  Action :: Action
  ActionType :: ActionType
  ActorName :: string
  ActorID :: string
  Location :: string
  OccuredAt :: time
  TargetName :: string
  TargetID :: string
  Metadata :: "addr option"

text \<open>
  The state the package works on: the store of maps with its next free address, and the
  bodies handed to \<^verbatim>\<open>client.PublishEvent\<close> so far, oldest first.
\<close>

record world =
  heap :: "addr \<Rightarrow> metadata"
  next_addr :: addr
  sent :: "json list"

text \<open>A call either returns or panics (assignment to an entry of a nil map).\<close>

datatype 'a exec = Return 'a | Panic

subsection \<open>Map primitives\<close>

text \<open>\<^verbatim>\<open>map[string]interface{}{}\<close>: a fresh empty map.\<close>

definition make_map :: "world \<Rightarrow> addr \<times> world" where
  "make_map w =
     (next_addr w, w\<lparr>heap := (heap w)(next_addr w := fmempty), next_addr := Suc (next_addr w)\<rparr>)"

text \<open>\<^verbatim>\<open>len(m)\<close>: the number of entries, 0 for the nil map.\<close>

definition len :: "world \<Rightarrow> addr option \<Rightarrow> nat" where
  "len w m = (case m of None \<Rightarrow> 0 | Some r \<Rightarrow> fcard (fmdom (heap w r)))"

text \<open>\<^verbatim>\<open>m[k] = v\<close>: panics on the nil map.\<close>

definition mapassign :: "addr option \<Rightarrow> string \<Rightarrow> val \<Rightarrow> world \<Rightarrow> world exec" where
  "mapassign m k v w =
     (case m of
        None \<Rightarrow> Panic
      | Some r \<Rightarrow> Return (w\<lparr>heap := (heap w)(r := fmupd k v (heap w r))\<rparr>))"

subsection \<open>Constructors and setters\<close>

text \<open>
  \<^verbatim>\<open>Event{}\<close>: the zero value of the struct.
\<close>

definition Event_zero :: Event where
  "Event_zero =
     \<lparr>Group = '''', Action = '''', ActionType = '''', ActorName = '''', ActorID = '''',
      Location = '''', OccuredAt = 0, TargetName = '''', TargetID = '''', Metadata = None\<rparr>"

text \<open>
  \<^verbatim>\<open>NewEvent\<close>. The results of \<^verbatim>\<open>os.Hostname()\<close> and \<^verbatim>\<open>time.Now().UTC()\<close> are the
  parameters \<open>hostname\<close> and \<open>now\<close>.
\<close>

definition NewEvent :: "error + string \<Rightarrow> time \<Rightarrow> Action \<Rightarrow> ActionType \<Rightarrow> world \<Rightarrow> Event \<times> world" where
  "NewEvent hostname now action actionType w =
     (let location = (case hostname of Inl err \<Rightarrow> '''' | Inr h \<Rightarrow> h);
          (m, w') = make_map w
      in (\<lparr>Group = '''', Action = action, ActionType = actionType, ActorName = '''',
           ActorID = '''', Location = location, OccuredAt = now, TargetName = '''',
           TargetID = '''', Metadata = Some m\<rparr>, w'))"

definition SetGroup :: "Event \<Rightarrow> Auditable \<Rightarrow> Event" where
  "SetGroup e grp = e\<lparr>Group := ToAuditableID grp\<rparr>"

definition SetActor :: "Event \<Rightarrow> Auditable \<Rightarrow> Event" where
  "SetActor e actor = (e\<lparr>ActorName := ToAuditableName actor\<rparr>)\<lparr>ActorID := ToAuditableID actor\<rparr>"

definition SetTarget :: "Event \<Rightarrow> Auditable \<Rightarrow> Event" where
  "SetTarget e target = (e\<lparr>TargetName := ToAuditableName target\<rparr>)\<lparr>TargetID := ToAuditableID target\<rparr>"

definition SetLocation :: "Event \<Rightarrow> string \<Rightarrow> Event" where
  "SetLocation e location = e\<lparr>Location := location\<rparr>"

subsection \<open>Adding metadata\<close>

text \<open>
  \<^verbatim>\<open>func (e Event) addMetadata(key string, value interface{}) error\<close>: the capacity check,
  then the expansion of a value that implements \<^verbatim>\<open>Auditable\<close> into the two keys
  \<^verbatim>\<open>fmt.Sprintf("%s_name", key)\<close> and \<^verbatim>\<open>fmt.Sprintf("%s_id", key)\<close>, or the plain
  assignment.
\<close>

definition addMetadata :: "Event \<Rightarrow> string \<Rightarrow> val \<Rightarrow> world \<Rightarrow> (error option \<times> world) exec" where
  "addMetadata e key value w =
     (if 500 \<le> len w (Metadata e) then Return (Some capacity_error, w)
      else
        (case value of
           VAuditable a \<Rightarrow>
             (let nameKey = key @ ''_name'';
                  idKey = key @ ''_id''
              in case mapassign (Metadata e) nameKey (VString (ToAuditableName a)) w of
                   Panic \<Rightarrow> Panic
                 | Return w1 \<Rightarrow>
                     (case mapassign (Metadata e) idKey (VString (ToAuditableID a)) w1 of
                        Panic \<Rightarrow> Panic
                      | Return w2 \<Rightarrow> Return (None, w2)))
         | _ \<Rightarrow>
             (case mapassign (Metadata e) key value w of
                Panic \<Rightarrow> Panic
              | Return w1 \<Rightarrow> Return (None, w1))))"

text \<open>
  \<^verbatim>\<open>func (e Event) AddMetadata(metadata map[string]interface{}) (err error)\<close>. Go visits the
  entries of a map in an order the runtime chooses; the argument is the batch as the
  sequence of entries in the order the \<^verbatim>\<open>range\<close> loop visits them.
\<close>

fun AddMetadata :: "Event \<Rightarrow> (string \<times> val) list \<Rightarrow> world \<Rightarrow> (error option \<times> world) exec" where
  "AddMetadata e [] w = Return (None, w)"
| "AddMetadata e ((k, v) # rest) w =
     (case addMetadata e k v w of
        Panic \<Rightarrow> Panic
      | Return (Some err, w') \<Rightarrow> Return (Some err, w')
      | Return (None, w') \<Rightarrow> AddMetadata e rest w')"

text \<open>
  \<^verbatim>\<open>NewEventWithMetadata\<close>: on an error of the batch the zero event is returned with it.
\<close>

definition NewEventWithMetadata ::
  "error + string \<Rightarrow> time \<Rightarrow> Action \<Rightarrow> ActionType \<Rightarrow> (string \<times> val) list \<Rightarrow> world
     \<Rightarrow> ((Event \<times> error option) \<times> world) exec" where
  "NewEventWithMetadata hostname now action actionType metadata w =
     (let (event, w0) = NewEvent hostname now action actionType w
      in case AddMetadata event metadata w0 of
           Panic \<Rightarrow> Panic
         | Return (Some err, w1) \<Rightarrow> Return ((Event_zero, Some err), w1)
         | Return (None, w1) \<Rightarrow> Return ((event, None), w1))"

text \<open>
  The part of \<^verbatim>\<open>*http.Request\<close> that \<^verbatim>\<open>NewEventWithHTTP\<close> reads: \<^verbatim>\<open>r.RemoteAddr\<close>,
  \<^verbatim>\<open>r.Method\<close>, the result of \<^verbatim>\<open>r.URL.String()\<close> and the function \<^verbatim>\<open>r.Header.Get\<close>
  (the first value of the header, the empty string when there is none).
\<close>

record Request =
  RemoteAddr :: string
  Method :: string
  URL_String :: string
  Header_Get :: "string \<Rightarrow> string"

text \<open>The local map \<^verbatim>\<open>metadata\<close> that \<^verbatim>\<open>NewEventWithHTTP\<close> builds from the request.\<close>

definition request_metadata :: "Request \<Rightarrow> metadata" where
  "request_metadata r =
     (let metadata = fmap_of_list
            [(''http_method'', VString (Method r)), (''request_url'', VString (URL_String r))];
          userAgent = Header_Get r ''User-Agent'';
          metadata = (if userAgent \<noteq> '''' then fmupd ''user_agent'' (VString userAgent) metadata
                      else metadata);
          requestID = Header_Get r ''X-Request-ID'';
          metadata = (if requestID \<noteq> '''' then fmupd ''request_id'' (VString requestID) metadata
                      else metadata)
      in metadata)"

text \<open>
  \<^verbatim>\<open>NewEventWithHTTP\<close>. The parameter \<open>order\<close> is the order in which the runtime visits
  the entries of the local map; the error of \<^verbatim>\<open>AddMetadata\<close> is dropped, as in the source.
\<close>

definition NewEventWithHTTP ::
  "(metadata \<Rightarrow> (string \<times> val) list) \<Rightarrow> error + string \<Rightarrow> time \<Rightarrow> Action \<Rightarrow> ActionType
     \<Rightarrow> Request \<Rightarrow> world \<Rightarrow> (Event \<times> world) exec" where
  "NewEventWithHTTP order hostname now action actionType r w =
     (let (event0, w0) = NewEvent hostname now action actionType w;
          event = SetLocation event0 (RemoteAddr r)
      in case AddMetadata event (order (request_metadata r)) w0 of
           Panic \<Rightarrow> Panic
         | Return (err, w1) \<Rightarrow> Return (event, w1))"

subsection \<open>Publishing\<close>

text \<open>
  \<^verbatim>\<open>for k, v := range globalMetadata { e.Metadata[k] = v }\<close>, over the entries of the
  package variable \<^verbatim>\<open>globalMetadata\<close> in the order the loop visits them.
\<close>

fun merge_global :: "Event \<Rightarrow> (string \<times> val) list \<Rightarrow> world \<Rightarrow> world exec" where
  "merge_global e [] w = Return w"
| "merge_global e ((k, v) # rest) w =
     (case mapassign (Metadata e) k v w of
        Panic \<Rightarrow> Panic
      | Return w' \<Rightarrow> merge_global e rest w')"

text \<open>
  \<^verbatim>\<open>json.Marshal(e)\<close>. The encoders of the standard library are parameters: \<open>enc\<close> is the
  encoding of one dynamic value (\<open>None\<close> when its type is unsupported) and \<open>enc_time\<close> is
  \<^verbatim>\<open>time.Time.MarshalJSON\<close>. A nil map is encoded as \<^verbatim>\<open>null\<close>; the fields carry the names
  of the struct tags.
\<close>

definition marshal_metadata :: "(val \<Rightarrow> json option) \<Rightarrow> world \<Rightarrow> addr option \<Rightarrow> json option" where
  "marshal_metadata enc w m =
     (case m of
        None \<Rightarrow> Some JNull
      | Some r \<Rightarrow>
          (if fmpred (\<lambda>k v. enc v \<noteq> None) (heap w r)
           then Some (JObject (fmmap (\<lambda>v. case enc v of Some j \<Rightarrow> j | None \<Rightarrow> JNull) (heap w r)))
           else None))"

definition Marshal ::
  "(val \<Rightarrow> json option) \<Rightarrow> (time \<Rightarrow> string option) \<Rightarrow> world \<Rightarrow> Event \<Rightarrow> error + json" where
  "Marshal enc enc_time w e =
     (case enc_time (OccuredAt e) of
        None \<Rightarrow> Inl MarshalError
      | Some t \<Rightarrow>
          (case marshal_metadata enc w (Metadata e) of
             None \<Rightarrow> Inl MarshalError
           | Some md \<Rightarrow>
               Inr (JObject (fmap_of_list
                 [(''group'', JString (Group e)),
                  (''action'', JString (Action e)),
                  (''action_type'', JString (ActionType e)),
                  (''actor_name'', JString (ActorName e)),
                  (''actor_id'', JString (ActorID e)),
                  (''location'', JString (Location e)),
                  (''occured_at'', JString t),
                  (''target_name'', JString (TargetName e)),
                  (''target_id'', JString (TargetID e)),
                  (''metadata'', md)]))))"

text \<open>
  \<^verbatim>\<open>func (e Event) Publish() error\<close>. \<open>PublishEvent\<close> is the transport
  \<^verbatim>\<open>client.PublishEvent\<close>; every body handed to it is appended to \<open>sent\<close>.
\<close>

definition Publish ::
  "(val \<Rightarrow> json option) \<Rightarrow> (time \<Rightarrow> string option) \<Rightarrow> (json \<Rightarrow> error option)
     \<Rightarrow> (string \<times> val) list \<Rightarrow> Event \<Rightarrow> world \<Rightarrow> (error option \<times> world) exec" where
  "Publish enc enc_time PublishEvent globalMetadata e w =
     (case merge_global e globalMetadata w of
        Panic \<Rightarrow> Panic
      | Return w1 \<Rightarrow>
          (case Marshal enc enc_time w1 e of
             Inl err \<Rightarrow> Return (Some err, w1)
           | Inr body \<Rightarrow> Return (PublishEvent body, w1\<lparr>sent := sent w1 @ [body]\<rparr>)))"

text \<open>
  The type assertion \<^verbatim>\<open>_, ok := value.(Auditable)\<close> of \<^verbatim>\<open>addMetadata\<close>, as a
  predicate.
\<close>

fun is_Auditable :: "val \<Rightarrow> bool" where
  "is_Auditable (VAuditable a) = True"
| "is_Auditable v = False"


subsection \<open>Example inputs\<close>

text \<open>
  The inputs at which the operations are evaluated below. First a batch of \<open>n\<close> entries
  with the pairwise distinct keys \<^verbatim>\<open>x\<close>, \<^verbatim>\<open>xx\<close>, \<^verbatim>\<open>xxx\<close>, ... and literal values, a
  batch of three literal entries, and a describable user (the one of the README).
\<close>

definition entries :: "nat \<Rightarrow> (string \<times> val) list" where
  "entries n = map (\<lambda>i. (replicate (Suc i) (CHR ''x''), VInt (int i))) [0..<n]"

definition batch3 :: "(string \<times> val) list" where
  "batch3 = [(''a'', VInt 1), (''b'', VInt 2), (''c'', VInt 3)]"

definition user0 :: Auditable where
  "user0 = \<lparr>ToAuditableName = ''user@email.com'', ToAuditableID = ''user_1''\<rparr>"

text \<open>
  A state with no map allocated and nothing sent, and the event and the state that
  \<^verbatim>\<open>NewEvent("user.login", Create)\<close> returns there (host name \<^verbatim>\<open>host\<close>, the zero time
  as the current time); the same call with the action type \<^verbatim>\<open>"X"\<close>.
\<close>

definition empty_world :: world where
  "empty_world = \<lparr>heap = (\<lambda>a. fmempty), next_addr = 0, sent = []\<rparr>"

definition event0 :: Event where
  "event0 = fst (NewEvent (Inr ''host'') 0 ''user.login'' Create empty_world)"

definition world0 :: world where
  "world0 = snd (NewEvent (Inr ''host'') 0 ''user.login'' Create empty_world)"


text \<open>
  The states of the boundary scenario: the map of the event holds the 499 entries of
  \<open>entries 499\<close>; then also the two expansion keys of \<^verbatim>\<open>actor\<close> (501 entries), or also
  the first entry of \<open>batch3\<close> (500 entries); and the map holds the 500 entries of
  \<open>entries 500\<close>.
\<close>

definition world499 :: world where
  "world499 = world0\<lparr>heap := (heap world0)(0 := fmap_of_list (rev (entries 499)))\<rparr>"

definition world501 :: world where
  "world501 = world499\<lparr>heap := (heap world499)(0 :=
      fmupd ''actor_id'' (VString (ToAuditableID user0))
        (fmupd ''actor_name'' (VString (ToAuditableName user0)) (heap world499 0)))\<rparr>"

definition world500 :: world where
  "world500 = world499\<lparr>heap := (heap world499)(0 := fmupd ''a'' (VInt 1) (heap world499 0))\<rparr>"

definition world_full :: world where
  "world_full = world0\<lparr>heap := (heap world0)(0 := fmap_of_list (rev (entries 500)))\<rparr>"

text \<open>
  The map of the event holds a literal under \<^verbatim>\<open>actor\<close>; then also the two expansion keys
  of \<^verbatim>\<open>actor\<close>.
\<close>

definition world_literal :: world where
  "world_literal = world0\<lparr>heap := (heap world0)(0 := fmupd ''actor'' (VString ''alice'') fmempty)\<rparr>"

definition world_expanded :: world where
  "world_expanded = world_literal\<lparr>heap := (heap world_literal)(0 :=
      fmupd ''actor_id'' (VString (ToAuditableID user0))
        (fmupd ''actor_name'' (VString (ToAuditableName user0)) (heap world_literal 0)))\<rparr>"

text \<open>
  Instances of the two encoders: the literals are encoded as the JSON scalars, a channel
  has no encoding, a describable value is taken to be a struct without exported fields;
  the timestamp encoder gives the text of the zero time, the only timestamp of the
  examples.
\<close>

fun enc_example :: "val \<Rightarrow> json option" where
  "enc_example VNil = Some JNull"
| "enc_example (VBool b) = Some (JBool b)"
| "enc_example (VInt i) = Some (JNumber i)"
| "enc_example (VString s) = Some (JString s)"
| "enc_example (VAuditable a) = Some (JObject fmempty)"
| "enc_example VChan = None"

definition enc_time_example :: "time \<Rightarrow> string option" where
  "enc_time_example t = Some ''0001-01-01T00:00:00Z''"

text \<open>
  Global default metadata with the one key \<^verbatim>\<open>hostname\<close> (as in the README); the state in
  which the map of the event holds \<^verbatim>\<open>hostname\<close> with a value of its own, the state after
  the merge, and the state in which the map holds a channel.
\<close>

definition global_example :: "(string \<times> val) list" where
  "global_example = [(''hostname'', VString ''app-fe1.aws.amazon.com'')]"

definition world_host :: world where
  "world_host = world0\<lparr>heap := (heap world0)(0 := fmupd ''hostname'' (VString ''per-event'') fmempty)\<rparr>"

definition world_merged :: world where
  "world_merged = world0\<lparr>heap := (heap world0)(0 := fmupd ''hostname'' (VString ''app-fe1.aws.amazon.com'') fmempty)\<rparr>"

definition world_chan :: world where
  "world_chan = world0\<lparr>heap := (heap world0)(0 := fmupd ''done'' VChan fmempty)\<rparr>"

text \<open>
  The wire record of the example event with a given action type and metadata, and the one
  with the merged metadata.
\<close>

definition body_example :: "ActionType \<Rightarrow> json \<Rightarrow> json" where
  "body_example actionType md = JObject (fmap_of_list
     [(''group'', JString []),
      (''action'', JString ''user.login''),
      (''action_type'', JString actionType),
      (''actor_name'', JString []),
      (''actor_id'', JString []),
      (''location'', JString ''host''),
      (''occured_at'', JString ''0001-01-01T00:00:00Z''),
      (''target_name'', JString []),
      (''target_id'', JString []),
      (''metadata'', md)])"

definition body_merged :: json where
  "body_merged = body_example ''C''
     (JObject (fmupd ''hostname'' (JString ''app-fe1.aws.amazon.com'') fmempty))"

text \<open>
  A request without headers (the one of the README, headers removed), and an order of
  visiting the entries of the local map of \<^verbatim>\<open>NewEventWithHTTP\<close>.
\<close>

definition request_example :: Request where
  "request_example =
     \<lparr>RemoteAddr = ''172.31.255.255'', Method = ''PUT'',
      URL_String = ''http://localhost/tweet/update'', Header_Get = (\<lambda>name. [])\<rparr>"

definition order_example :: "metadata \<Rightarrow> (string \<times> val) list" where
  "order_example m =
     concat (map (\<lambda>k. case fmlookup m k of None \<Rightarrow> [] | Some v \<Rightarrow> [(k, v)])
       [''request_id'', ''user_agent'', ''request_url'', ''http_method''])"

section \<open>Properties\<close>

subsection \<open>Single steps\<close>

lemma len_Some: "len w (Some r) = fcard (fmdom (heap w r))"
  by (simp add: len_def)

lemma addMetadata_full:
  "500 \<le> len w (Metadata e) \<Longrightarrow> addMetadata e k v w = Return (Some capacity_error, w)"
  by (simp add: addMetadata_def)

lemma addMetadata_literal:
  "Metadata e = Some r \<Longrightarrow> len w (Some r) < 500 \<Longrightarrow> \<not> is_Auditable v \<Longrightarrow>
   addMetadata e k v w = Return (None, w\<lparr>heap := (heap w)(r := fmupd k v (heap w r))\<rparr>)"
  by (cases v) (simp_all add: addMetadata_def mapassign_def)

lemma addMetadata_auditable:
  "Metadata e = Some r \<Longrightarrow> len w (Some r) < 500 \<Longrightarrow>
   addMetadata e k (VAuditable a) w =
     Return (None, w\<lparr>heap := (heap w)(r := fmupd (k @ ''_id'') (VString (ToAuditableID a))
        (fmupd (k @ ''_name'') (VString (ToAuditableName a)) (heap w r)))\<rparr>)"
  by (simp add: addMetadata_def mapassign_def)

subsection \<open>Loops over the entries of a map\<close>



lemma AddMetadata_append:
  "AddMetadata e (xs @ ys) w =
     (case AddMetadata e xs w of
        Panic \<Rightarrow> Panic
      | Return (Some err, w') \<Rightarrow> Return (Some err, w')
      | Return (None, w') \<Rightarrow> AddMetadata e ys w')"
proof (induction xs arbitrary: w)
  case Nil
  then show ?case by simp
next
  case (Cons x xs)
  obtain k v where x: "x = (k, v)" by (cases x)
  show ?case
    by (simp add: x Cons.IH split: exec.splits option.splits prod.splits)
qed

lemma AddMetadata_literals:
  "Metadata e = Some r \<Longrightarrow> \<forall>x \<in> set xs. \<not> is_Auditable (snd x) \<Longrightarrow>
   len w (Some r) + length xs \<le> 500 \<Longrightarrow>
   AddMetadata e xs w =
     Return (None, w\<lparr>heap := (heap w)(r := heap w r ++\<^sub>f fmap_of_list (rev xs))\<rparr>)"
proof (induction xs arbitrary: w)
  case Nil
  then show ?case by simp
next
  case (Cons x xs)
  obtain k v where x: "x = (k, v)" by (cases x)
  let ?w1 = "w\<lparr>heap := (heap w)(r := fmupd k v (heap w r))\<rparr>"
  from Cons.prems have lt: "len w (Some r) < 500" and lit: "\<not> is_Auditable v"
    by (simp_all add: x)
  have step: "addMetadata e k v w = Return (None, ?w1)"
    by (rule addMetadata_literal [OF Cons.prems(1) lt lit])
  have "len ?w1 (Some r) \<le> Suc (len w (Some r))"
    by (simp add: len_Some fcard_finsert_if)
  with Cons.prems have bound: "len ?w1 (Some r) + length xs \<le> 500"
    by simp
  have rest: "\<forall>x \<in> set xs. \<not> is_Auditable (snd x)"
    using Cons.prems(2) by simp
  show ?case
    by (simp add: x step Cons.IH [OF Cons.prems(1) rest bound] cong: if_cong)
qed

lemma fcard_union_list:
  "distinct ys \<Longrightarrow> \<forall>y \<in> set ys. y |\<notin>| A \<Longrightarrow> fcard (A |\<union>| fset_of_list ys) = fcard A + length ys"
proof (induction ys arbitrary: A)
  case Nil
  then show ?case by simp
next
  case (Cons y ys)
  have "fcard (finsert y A |\<union>| fset_of_list ys) = fcard (finsert y A) + length ys"
    using Cons.prems by (intro Cons.IH) auto
  moreover have "fcard (finsert y A) = Suc (fcard A)"
    using Cons.prems by (simp add: fcard_finsert_if)
  ultimately show ?case by simp
qed

lemma len_after_new_keys:
  "distinct (map fst xs) \<Longrightarrow> \<forall>x \<in> set xs. fst x |\<notin>| fmdom (heap w r) \<Longrightarrow>
   len (w\<lparr>heap := (heap w)(r := heap w r ++\<^sub>f fmap_of_list (rev xs))\<rparr>) (Some r)
     = len w (Some r) + length xs"
  using fcard_union_list [of "map fst xs" "fmdom (heap w r)"]
  by (simp add: len_Some rev_map [symmetric])

subsection \<open>Attaching the actor\<close>

text \<open>
  C7. For every describable value \<open>d\<close> and every event, \<open>SetActor\<close> sets the actor name to
  the display name of \<open>d\<close> and the actor id to its stable ID, leaves every other field of
  the event as it was, and calling it twice with the same \<open>d\<close> gives the same event as
  calling it once.
\<close>

theorem SetActor_assigns_and_idempotent:
  "ActorName (SetActor e d) = ToAuditableName d \<and> ActorID (SetActor e d) = ToAuditableID d \<and>
   Group (SetActor e d) = Group e \<and> Action (SetActor e d) = Action e \<and>
   ActionType (SetActor e d) = ActionType e \<and> Location (SetActor e d) = Location e \<and>
   OccuredAt (SetActor e d) = OccuredAt e \<and> TargetName (SetActor e d) = TargetName e \<and>
   TargetID (SetActor e d) = TargetID e \<and> Metadata (SetActor e d) = Metadata e \<and>
   SetActor (SetActor e d) d = SetActor e d"
  by (simp add: SetActor_def)

subsection \<open>Facts about the example inputs\<close>

lemma length_entries: "length (entries n) = n"
  by (simp add: entries_def)

lemma keys_entries: "map fst (entries n) = map (\<lambda>i. replicate (Suc i) (CHR ''x'')) [0..<n]"
  by (simp add: entries_def comp_def)

lemma distinct_entries: "distinct (map fst (entries n))"
  unfolding keys_entries
  by (rule iffD2 [OF distinct_map], auto intro!: inj_onI dest: arg_cong [where f = length])

lemma literal_entries: "\<forall>x \<in> set (entries n). \<not> is_Auditable (snd x)"
  by (auto simp: entries_def)

lemma key_entries: "x \<in> set (entries n) \<Longrightarrow> set (fst x) = {CHR ''x''}"
  by (auto simp: entries_def)

lemma take_entries: "take m (entries n) = entries (min m n)"
  by (simp add: entries_def take_map min_def)

lemma Metadata_event0: "Metadata event0 = Some 0"
  by (simp add: event0_def NewEvent_def make_map_def empty_world_def)

lemma world0_eq: "world0 = \<lparr>heap = (\<lambda>a. fmempty), next_addr = 1, sent = []\<rparr>"
  by (simp add: world0_def NewEvent_def make_map_def empty_world_def fun_eq_iff)

subsection \<open>A batch that fails\<close>

lemma addMetadata_error:
  "addMetadata e k v w = Return (Some err, w') \<Longrightarrow>
   err = capacity_error \<and> w' = w \<and> 500 \<le> len w (Metadata e)"
  by (auto simp: addMetadata_def Let_def split: if_splits val.splits exec.splits)

lemma AddMetadata_error_prefix:
  "AddMetadata e batch w = Return (Some err, w') \<Longrightarrow>
   err = capacity_error \<and> 500 \<le> len w' (Metadata e) \<and>
   (\<exists>xs k v ys. batch = xs @ (k, v) # ys \<and> AddMetadata e xs w = Return (None, w'))"
proof (induction batch arbitrary: w)
  case Nil
  then show ?case by simp
next
  case (Cons x rest)
  obtain k v where x: "x = (k, v)" by (cases x)
  show ?case
  proof (cases "addMetadata e k v w")
    case Panic
    with Cons.prems show ?thesis by (simp add: x)
  next
    case (Return p)
    obtain res w1 where p: "p = (res, w1)" by (cases p)
    show ?thesis
    proof (cases res)
      case None
      with Cons.prems Return p have "AddMetadata e rest w1 = Return (Some err, w')"
        by (simp add: x)
      from Cons.IH [OF this] obtain xs k' v' ys where
        e: "err = capacity_error" and l: "500 \<le> len w' (Metadata e)" and
        b: "rest = xs @ (k', v') # ys" and a: "AddMetadata e xs w1 = Return (None, w')"
        by blast
      have "x # rest = ((k, v) # xs) @ (k', v') # ys" by (simp add: x b)
      moreover have "AddMetadata e ((k, v) # xs) w = Return (None, w')"
        by (simp add: Return p None a)
      ultimately show ?thesis using e l by blast
    next
      case (Some err')
      with Cons.prems Return p have eq: "err' = err" "w1 = w'"
        by (simp_all add: x)
      from addMetadata_error [of e k v w err' w1] Return p Some eq
      have "err = capacity_error" "w' = w" "500 \<le> len w (Metadata e)" by simp_all
      moreover have "x # rest = [] @ (k, v) # rest" by (simp add: x)
      moreover have "AddMetadata e [] w = Return (None, w)" by simp
      ultimately show ?thesis by blast
    qed
  qed
qed

lemma AddMetadata_overflow:
  assumes r: "Metadata e = Some r"
    and lit: "\<forall>x \<in> set xs. \<not> is_Auditable (snd x)"
    and dist: "distinct (map fst xs)"
    and new: "\<forall>x \<in> set xs. fst x |\<notin>| fmdom (heap w r)"
    and le: "len w (Some r) \<le> 500"
    and over: "500 < len w (Some r) + length xs"
  shows "AddMetadata e xs w =
     Return (Some capacity_error,
       w\<lparr>heap := (heap w)(r := heap w r ++\<^sub>f fmap_of_list (rev (take (500 - len w (Some r)) xs)))\<rparr>)"
proof -
  let ?n = "500 - len w (Some r)"
  let ?w1 = "w\<lparr>heap := (heap w)(r := heap w r ++\<^sub>f fmap_of_list (rev (take ?n xs)))\<rparr>"
  have split: "xs = take ?n xs @ drop ?n xs" by simp
  have lit1: "\<forall>x \<in> set (take ?n xs). \<not> is_Auditable (snd x)"
    using lit by (auto dest: in_set_takeD)
  have len1: "length (take ?n xs) = ?n" using over by simp
  have pre: "AddMetadata e (take ?n xs) w = Return (None, ?w1)"
    by (rule AddMetadata_literals [OF r lit1]) (use le len1 in simp)
  have "distinct (map fst (take ?n xs))"
    using dist by (simp add: take_map [symmetric])
  moreover have "\<forall>x \<in> set (take ?n xs). fst x |\<notin>| fmdom (heap w r)"
    using new by (auto dest: in_set_takeD)
  ultimately have "len ?w1 (Some r) = len w (Some r) + length (take ?n xs)"
    by (rule len_after_new_keys)
  with le len1 have full: "500 \<le> len ?w1 (Metadata e)" by (simp add: r)
  from over le have "?n < length xs" by arith
  then have "drop ?n xs \<noteq> []" by simp
  then obtain k v ys where d: "drop ?n xs = (k, v) # ys"
    by (cases "drop ?n xs") auto
  have "AddMetadata e ((k, v) # ys) ?w1 = Return (Some capacity_error, ?w1)"
    using addMetadata_full [OF full] by simp
  then have "AddMetadata e (take ?n xs @ drop ?n xs) w = Return (Some capacity_error, ?w1)"
    by (simp only: AddMetadata_append pre d exec.case prod.case option.case)
  then show ?thesis by simp
qed

lemma heap_world0: "heap world0 a = fmempty"
  by (simp add: world0_eq)

lemma len_world0: "len world0 (Some 0) = 0"
  by (simp add: len_Some heap_world0)

lemma len_entries_world:
  "len (world0\<lparr>heap := (heap world0)(0 := fmap_of_list (rev (entries n)))\<rparr>) (Some 0) = n"
  using len_after_new_keys [of "entries n" world0 0]
  by (simp add: distinct_entries heap_world0 len_world0 length_entries)

lemma not_key_entries: "CHR ''x'' \<notin> set k \<Longrightarrow> k |\<notin>| fmdom (fmap_of_list (rev (entries n)))"
  by (auto simp: fset_of_list.rep_eq dest: key_entries)

subsection \<open>The capacity of the metadata mapping\<close>

text \<open>
  C1. The metadata key count is meant never to exceed 500. Evaluated at the boundary: a new
  event receives 499 literal entries (count 499), and then one describable value under the
  key \<^verbatim>\<open>actor\<close>. The check \<^verbatim>\<open>len(e.Metadata) >= 500\<close> passes, both expansion keys are
  written, the call returns no error, and the count is 501.
\<close>

theorem AddMetadata_auditable_at_499_gives_501:
  "AddMetadata event0 (entries 499) world0 = Return (None, world499) \<and>
   len world499 (Metadata event0) = 499 \<and>
   AddMetadata event0 [(''actor'', VAuditable user0)] world499 = Return (None, world501) \<and>
   len world501 (Metadata event0) = 501"
proof -
  have a: "AddMetadata event0 (entries 499) world0 = Return (None, world499)"
    using AddMetadata_literals [OF Metadata_event0 literal_entries [of 499], of world0]
    by (simp add: len_world0 length_entries world499_def heap_world0)
  have l: "len world499 (Some 0) = 499"
    unfolding world499_def by (rule len_entries_world)
  have "addMetadata event0 ''actor'' (VAuditable user0) world499 = Return (None, world501)"
    using addMetadata_auditable [OF Metadata_event0, of world499 "''actor''" user0] l
    by (simp add: world501_def)
  then have b: "AddMetadata event0 [(''actor'', VAuditable user0)] world499 = Return (None, world501)"
    by simp
  have "fcard (fmdom (heap world501 0)) = Suc (Suc (fcard (fmdom (heap world499 0))))"
    by (simp add: world501_def world499_def fcard_finsert_if not_key_entries del: fmdom_fmap_of_list)
  with l have c: "len world501 (Some 0) = 501"
    by (simp add: len_Some)
  show ?thesis using a l b c by (simp add: Metadata_event0)
qed

subsection \<open>Partial application of a failing batch\<close>

lemma len_world499: "len world499 (Some 0) = 499"
  unfolding world499_def by (rule len_entries_world)

lemma len_world500: "len world500 (Some 0) = 500"
proof -
  have "fcard (fmdom (heap world500 0)) = Suc (fcard (fmdom (heap world499 0)))"
    by (simp add: world500_def world499_def fcard_finsert_if not_key_entries del: fmdom_fmap_of_list)
  with len_world499 show ?thesis by (simp add: len_Some)
qed

lemma AddMetadata_batch3:
  "AddMetadata event0 batch3 world499 = Return (Some capacity_error, world500)"
proof -
  have "addMetadata event0 ''a'' (VInt 1) world499 = Return (None, world500)"
    using addMetadata_literal [OF Metadata_event0, of world499 "VInt 1" "''a''"] len_world499
    by (simp add: world500_def)
  moreover have "addMetadata event0 ''b'' (VInt 2) world500 = Return (Some capacity_error, world500)"
    by (rule addMetadata_full) (simp add: Metadata_event0 len_world500)
  ultimately show ?thesis by (simp add: batch3_def)
qed

text \<open>
  C4. When a call of \<open>AddMetadata\<close> returns an error, the error is the capacity error,
  and the batch splits into a prefix, the entry at which the check failed, and the rest:
  the state returned with the error is exactly the state that applying the prefix alone
  returns without an error. So the entries applied before the failure stay applied, and
  neither the failing entry nor any entry after it is applied.
\<close>

theorem AddMetadata_capacity_error_keeps_applied_prefix:
  assumes "AddMetadata e batch w = Return (Some err, w')"
  shows "err = capacity_error \<and> 500 \<le> len w' (Metadata e) \<and>
         (\<exists>xs k v ys. batch = xs @ (k, v) # ys \<and> AddMetadata e xs w = Return (None, w'))"
  using assms by (rule AddMetadata_error_prefix)

text \<open>
  The boundary scenario: 499 entries are present, a batch of three literal entries is added.
  The first is applied (count 500), the second fails, the third is not visited.
\<close>

theorem AddMetadata_capacity_error_keeps_applied_prefix_witness:
  "AddMetadata event0 batch3 world499 = Return (Some capacity_error, world500) \<and>
   500 \<le> len world500 (Metadata event0) \<and>
   (\<exists>xs k v ys. batch3 = xs @ (k, v) # ys \<and>
      AddMetadata event0 xs world499 = Return (None, world500))"
  using AddMetadata_capacity_error_keeps_applied_prefix [OF AddMetadata_batch3] AddMetadata_batch3
  by simp

subsection \<open>The constructor with initial metadata\<close>

lemma NewEvent_example:
  "NewEvent (Inr ''host'') 0 ''user.login'' Create empty_world = (event0, world0)"
  by (simp add: event0_def world0_def)

lemma AddMetadata_entries_501:
  "AddMetadata event0 (entries 501) world0 = Return (Some capacity_error, world_full)"
  using AddMetadata_overflow [OF Metadata_event0 literal_entries [of 501] distinct_entries, of world0]
  by (simp add: heap_world0 len_world0 length_entries take_entries world_full_def)

text \<open>
  C10. When the initial batch of \<open>NewEventWithMetadata\<close> fails, the event returned with
  the error is the zero value of the struct: every string field empty, the zero timestamp
  and the nil metadata map. The map that \<open>NewEvent\<close> allocated (at the address
  \<open>next_addr w\<close>) holds the 500 or more entries applied before the failure, and the
  returned event does not refer to it.
\<close>

theorem NewEventWithMetadata_error_returns_zero_event:
  assumes "NewEventWithMetadata hostname now action actionType metadata w = Return ((event, Some err), w')"
  shows "event = Event_zero \<and> Group event = '''' \<and> Action event = '''' \<and>
         ActionType event = '''' \<and> ActorName event = '''' \<and> ActorID event = '''' \<and>
         Location event = '''' \<and> OccuredAt event = 0 \<and> TargetName event = '''' \<and>
         TargetID event = '''' \<and> Metadata event = None \<and>
         err = capacity_error \<and> 500 \<le> len w' (Some (next_addr w))"
proof -
  obtain ev w0 where n: "NewEvent hostname now action actionType w = (ev, w0)"
    by (cases "NewEvent hostname now action actionType w")
  then have m: "Metadata ev = Some (next_addr w)"
    by (auto simp: NewEvent_def make_map_def Let_def)
  from assms n have a: "AddMetadata ev metadata w0 = Return (Some err, w')" and z: "event = Event_zero"
    by (auto simp: NewEventWithMetadata_def split: exec.splits option.splits prod.splits)
  from AddMetadata_error_prefix [OF a] m have "err = capacity_error" "500 \<le> len w' (Some (next_addr w))"
    by simp_all
  with z show ?thesis by (simp add: Event_zero_def)
qed

text \<open>
  A batch of 501 literal entries with distinct keys fails at its last entry.
\<close>

theorem NewEventWithMetadata_error_returns_zero_event_witness:
  "NewEventWithMetadata (Inr ''host'') 0 ''user.login'' Create (entries 501) empty_world
     = Return ((Event_zero, Some capacity_error), world_full) \<and>
   Metadata Event_zero = None \<and> OccuredAt Event_zero = 0 \<and>
   500 \<le> len world_full (Some (next_addr empty_world))"
proof -
  have r: "NewEventWithMetadata (Inr ''host'') 0 ''user.login'' Create (entries 501) empty_world
     = Return ((Event_zero, Some capacity_error), world_full)"
    by (simp add: NewEventWithMetadata_def NewEvent_example AddMetadata_entries_501)
  show ?thesis
    using NewEventWithMetadata_error_returns_zero_event [OF r] r by simp
qed

subsection \<open>Expansion of a describable value\<close>

text \<open>
  C2, as amended. Below the capacity, adding a describable value under the key \<open>k\<close>
  returns no error and binds \<open>k_name\<close> to the display name and \<open>k_id\<close> to the stable ID
  of the value; these two keys are the only ones written. Every other key keeps its
  binding, the key \<open>k\<close> itself included: a literal stored at \<open>k\<close> before is still there.
\<close>

theorem addMetadata_auditable_writes_two_keys:
  assumes "Metadata e = Some r" and "len w (Metadata e) < 500"
  shows "\<exists>w'. addMetadata e k (VAuditable a) w = Return (None, w') \<and>
           fmlookup (heap w' r) (k @ ''_name'') = Some (VString (ToAuditableName a)) \<and>
           fmlookup (heap w' r) (k @ ''_id'') = Some (VString (ToAuditableID a)) \<and>
           fmdom (heap w' r) = finsert (k @ ''_name'') (finsert (k @ ''_id'') (fmdom (heap w r))) \<and>
           (\<forall>j. j \<noteq> k @ ''_name'' \<and> j \<noteq> k @ ''_id'' \<longrightarrow>
                fmlookup (heap w' r) j = fmlookup (heap w r) j) \<and>
           fmlookup (heap w' r) k = fmlookup (heap w r) k"
  using addMetadata_auditable [OF assms(1), of w k a] assms by auto

text \<open>
  At a new event, the key \<^verbatim>\<open>actor\<close> and the user of the README.
\<close>

theorem addMetadata_auditable_writes_two_keys_witness:
  "Metadata event0 = Some 0 \<and> len world0 (Metadata event0) < 500 \<and>
   (\<exists>w'. addMetadata event0 ''actor'' (VAuditable user0) world0 = Return (None, w') \<and>
      fmlookup (heap w' 0) ''actor_name'' = Some (VString ''user@email.com'') \<and>
      fmlookup (heap w' 0) ''actor_id'' = Some (VString ''user_1'') \<and>
      fmdom (heap w' 0) = {|''actor_name'', ''actor_id''|})"
proof -
  have m: "Metadata event0 = Some 0" by (rule Metadata_event0)
  have l: "len world0 (Metadata event0) < 500" by (simp add: m len_world0)
  show ?thesis
    using addMetadata_auditable_writes_two_keys [OF m l, of "''actor''" user0] m l
    by (auto simp: user0_def heap_world0)
qed

text \<open>
  C2 as stated fails: a literal is stored under \<^verbatim>\<open>actor\<close>, then a describable value is
  added under the same key. The literal entry at \<^verbatim>\<open>actor\<close> is still present afterwards.
\<close>

theorem addMetadata_auditable_keeps_literal_counterexample:
  "AddMetadata event0 [(''actor'', VString ''alice'')] world0 = Return (None, world_literal) \<and>
   AddMetadata event0 [(''actor'', VAuditable user0)] world_literal = Return (None, world_expanded) \<and>
   fmlookup (heap world_expanded 0) ''actor'' = Some (VString ''alice'')"
proof -
  have l0: "len world0 (Some 0) < 500" by (simp add: len_world0)
  have a: "addMetadata event0 ''actor'' (VString ''alice'') world0 = Return (None, world_literal)"
    using addMetadata_literal [OF Metadata_event0 l0, of "VString ''alice''" "''actor''"]
    by (simp add: world_literal_def heap_world0)
  have l1: "len world_literal (Some 0) < 500"
    by (simp add: len_Some world_literal_def fcard_finsert_if fcard_fempty)
  have b: "addMetadata event0 ''actor'' (VAuditable user0) world_literal = Return (None, world_expanded)"
    using addMetadata_auditable [OF Metadata_event0 l1, of "''actor''" user0]
    by (simp add: world_expanded_def)
  have c: "fmlookup (heap world_expanded 0) ''actor'' = Some (VString ''alice'')"
    by (simp add: world_expanded_def world_literal_def)
  show ?thesis using a b c by simp
qed

subsection \<open>Serialization and publishing\<close>

lemma marshal_metadata_heap:
  "heap w = heap w1 \<Longrightarrow> marshal_metadata enc w m = marshal_metadata enc w1 m"
  by (cases m) (simp_all add: marshal_metadata_def)

lemma Marshal_heap: "heap w = heap w1 \<Longrightarrow> Marshal enc tenc w e = Marshal enc tenc w1 e"
  unfolding Marshal_def by (simp only: marshal_metadata_heap [of w w1])

lemma Marshal_sent: "Marshal enc tenc (w\<lparr>sent := s\<rparr>) e = Marshal enc tenc w e"
  by (rule Marshal_heap) simp

lemma Marshal_Inl:
  "Marshal enc tenc w e = Inl err \<longleftrightarrow>
     err = MarshalError \<and>
     (tenc (OccuredAt e) = None \<or>
      (\<exists>r k v. Metadata e = Some r \<and> fmlookup (heap w r) k = Some v \<and> enc v = None))"
  by (auto simp: Marshal_def marshal_metadata_def fmpred_iff split: option.splits)


lemma Publish_Return:
  assumes "Publish enc tenc transport gs e w = Return (res, w')"
  shows "\<exists>w1. merge_global e gs w = Return w1 \<and> heap w' = heap w1 \<and>
           (case Marshal enc tenc w1 e of
              Inl err \<Rightarrow> res = Some err \<and> w' = w1
            | Inr body \<Rightarrow> res = transport body \<and> w' = w1\<lparr>sent := sent w1 @ [body]\<rparr>)"
  using assms by (auto simp: Publish_def split: exec.splits sum.splits)

lemma merge_global_sent: "merge_global e gs w = Return w1 \<Longrightarrow> sent w1 = sent w"
  by (induction gs arbitrary: w) (auto simp: mapassign_def split: option.splits exec.splits)





text \<open>
  C5. Whenever \<open>Publish\<close> returns: if the serialization of the event (after the merge)
  fails, \<open>Publish\<close> returns that error and nothing is handed to the transport; if it
  succeeds, exactly the serialized body is handed to the transport and \<open>Publish\<close> returns
  the result of the transport unchanged. So \<open>Publish\<close> succeeds exactly when serialization
  and transport both succeed. Serialization fails exactly when the timestamp or a value
  of the metadata mapping cannot be encoded.
\<close>

theorem Publish_error_handling:
  assumes "Publish enc tenc transport gs e w = Return (res, w')"
  shows "(\<forall>err. Marshal enc tenc w' e = Inl err \<longrightarrow> res = Some err \<and> sent w' = sent w) \<and>
         (\<forall>body. Marshal enc tenc w' e = Inr body \<longrightarrow>
            res = transport body \<and> sent w' = sent w @ [body]) \<and>
         (res = None \<longleftrightarrow> (\<exists>body. Marshal enc tenc w' e = Inr body \<and> transport body = None)) \<and>
         ((\<exists>err. Marshal enc tenc w' e = Inl err) \<longleftrightarrow>
            tenc (OccuredAt e) = None \<or>
            (\<exists>r k v. Metadata e = Some r \<and> fmlookup (heap w' r) k = Some v \<and> enc v = None))"
proof -
  from Publish_Return [OF assms] obtain w1 where
    m: "merge_global e gs w = Return w1" and h: "heap w' = heap w1" and
    c: "case Marshal enc tenc w1 e of
          Inl err \<Rightarrow> res = Some err \<and> w' = w1
        | Inr body \<Rightarrow> res = transport body \<and> w' = w1\<lparr>sent := sent w1 @ [body]\<rparr>"
    by blast
  have s: "sent w1 = sent w" by (rule merge_global_sent [OF m])
  have eq: "Marshal enc tenc w' e = Marshal enc tenc w1 e" by (rule Marshal_heap [OF h])
  have "(\<exists>err. Marshal enc tenc w' e = Inl err) \<longleftrightarrow>
            tenc (OccuredAt e) = None \<or>
            (\<exists>r k v. Metadata e = Some r \<and> fmlookup (heap w' r) k = Some v \<and> enc v = None)"
    by (simp add: Marshal_Inl)
  moreover have "(\<forall>err. Marshal enc tenc w' e = Inl err \<longrightarrow> res = Some err \<and> sent w' = sent w)"
    using c s by (cases "Marshal enc tenc w1 e") (auto simp: eq Marshal_sent)
  moreover have "(\<forall>body. Marshal enc tenc w' e = Inr body \<longrightarrow>
            res = transport body \<and> sent w' = sent w @ [body])"
    using c s by (cases "Marshal enc tenc w1 e") (auto simp: eq Marshal_sent)
  moreover have "(res = None \<longleftrightarrow> (\<exists>body. Marshal enc tenc w' e = Inr body \<and> transport body = None))"
    using c by (cases "Marshal enc tenc w1 e") (auto simp: eq Marshal_sent)
  ultimately show ?thesis by blast
qed



subsection \<open>Publishing the example event\<close>

lemma event0_eq:
  "event0 = \<lparr>Group = [], Action = ''user.login'', ActionType = ''C'', ActorName = [],
      ActorID = [], Location = ''host'', OccuredAt = 0, TargetName = [],
      TargetID = [], Metadata = Some 0\<rparr>"
  by (simp add: event0_def NewEvent_def make_map_def empty_world_def Create_def)


lemma fmpred_single: "fmpred P (fmupd k v fmempty) \<longleftrightarrow> P k v"
  by (auto simp: fmpred_iff split: if_splits)

lemma marshal_metadata_single:
  "heap w r = fmupd k v fmempty \<Longrightarrow>
   marshal_metadata enc_example w (Some r) =
     (case enc_example v of None \<Rightarrow> None | Some j \<Rightarrow> Some (JObject (fmupd k j fmempty)))"
  by (auto simp: marshal_metadata_def fmpred_single fmmap_fmupd split: option.splits)


lemma Marshal_world_merged:
  "Marshal enc_example enc_time_example world_merged event0 = Inr body_merged"
proof -
  have "heap world_merged 0 = fmupd ''hostname'' (VString ''app-fe1.aws.amazon.com'') fmempty"
    by (simp add: world_merged_def)
  then have "marshal_metadata enc_example world_merged (Some 0) =
      Some (JObject (fmupd ''hostname'' (JString ''app-fe1.aws.amazon.com'') fmempty))"
    by (simp add: marshal_metadata_single)
  then show ?thesis
    by (simp add: Marshal_def event0_eq enc_time_example_def body_merged_def body_example_def)
qed

lemma merge_global_world_host:
  "merge_global event0 global_example world_host = Return world_merged"
  by (simp add: global_example_def mapassign_def Metadata_event0 world_host_def world_merged_def)

lemma Publish_world_host:
  "Publish enc_example enc_time_example transport global_example event0 world_host =
     Return (transport body_merged, world_merged\<lparr>sent := sent world_merged @ [body_merged]\<rparr>)"
  by (simp add: Publish_def merge_global_world_host Marshal_world_merged)

lemma sent_example: "sent world_host = []" "sent world_merged = []" "sent world_chan = []"
  by (simp_all add: world_host_def world_merged_def world_chan_def world0_eq)


text \<open>
  A channel in the metadata: the serialization error, nothing sent. An encodable event: the
  error of a failing transport unchanged, and success with a succeeding transport.
\<close>

theorem Publish_error_handling_witness:
  "Publish enc_example enc_time_example (\<lambda>body. None) [] event0 world_chan =
     Return (Some MarshalError, world_chan) \<and>
   Marshal enc_example enc_time_example world_chan event0 = Inl MarshalError \<and>
   sent world_chan = [] \<and>
   Publish enc_example enc_time_example (\<lambda>body. Some (TransportError ''503'')) global_example
     event0 world_host =
     Return (Some (TransportError ''503''), world_merged\<lparr>sent := [body_merged]\<rparr>) \<and>
   Publish enc_example enc_time_example (\<lambda>body. None) global_example event0 world_host =
     Return (None, world_merged\<lparr>sent := [body_merged]\<rparr>)"
proof -
  have "heap world_chan 0 = fmupd ''done'' VChan fmempty"
    by (simp add: world_chan_def)
  then have "marshal_metadata enc_example world_chan (Some 0) = None"
    by (simp add: marshal_metadata_single)
  then have m: "Marshal enc_example enc_time_example world_chan event0 = Inl MarshalError"
    by (simp add: Marshal_def enc_time_example_def Metadata_event0)
  have p: "Publish enc_example enc_time_example (\<lambda>body. None) [] event0 world_chan =
     Return (Some MarshalError, world_chan)"
    by (simp add: Publish_def m)
  have q: "Publish enc_example enc_time_example (\<lambda>body. Some (TransportError ''503'')) global_example
     event0 world_host =
     Return (Some (TransportError ''503''), world_merged\<lparr>sent := [body_merged]\<rparr>)"
    by (simp add: Publish_world_host sent_example)
  have r: "Publish enc_example enc_time_example (\<lambda>body. None) global_example event0 world_host =
     Return (None, world_merged\<lparr>sent := [body_merged]\<rparr>)"
    by (simp add: Publish_world_host sent_example)
  show ?thesis
    using Publish_error_handling [OF p] Publish_error_handling [OF q] Publish_error_handling [OF r]
      m p q r
    by (simp add: sent_example)
qed




subsection \<open>The constructor from an HTTP request\<close>

lemma map_of_rev_distinct:
  assumes "distinct (map fst xs)"
  shows "map_of (rev xs) k = map_of xs k"
proof (cases "map_of xs k")
  case None
  then have "k \<notin> fst ` set (rev xs)" by (simp add: map_of_eq_None_iff)
  then have "map_of (rev xs) k = None" by (simp add: map_of_eq_None_iff)
  with None show ?thesis by simp
next
  case (Some v)
  then have "(k, v) \<in> set (rev xs)" by (auto dest: map_of_SomeD)
  moreover have "distinct (map fst (rev xs))" using assms by (simp add: rev_map [symmetric])
  ultimately show ?thesis using Some by simp
qed

lemma fmap_of_list_rev_distinct:
  "distinct (map fst xs) \<Longrightarrow> fmap_of_list (rev xs) = fmap_of_list xs"
  by (rule fmap_ext) (simp add: fmlookup_of_list map_of_rev_distinct)

lemma request_metadata_lookup:
  "fmlookup (request_metadata r) k =
     (if k = ''request_id'' \<and> Header_Get r ''X-Request-ID'' \<noteq> []
        then Some (VString (Header_Get r ''X-Request-ID''))
      else if k = ''user_agent'' \<and> Header_Get r ''User-Agent'' \<noteq> []
        then Some (VString (Header_Get r ''User-Agent''))
      else if k = ''http_method'' then Some (VString (Method r))
      else if k = ''request_url'' then Some (VString (URL_String r))
      else None)"
  by (simp add: request_metadata_def Let_def)

lemma request_metadata_dom:
  "fmdom (request_metadata r) |\<subseteq>| {|''http_method'', ''request_url'', ''user_agent'', ''request_id''|}"
  by (auto simp: fmlookup_dom_iff request_metadata_lookup split: if_splits)

lemma request_metadata_literal:
  "fmlookup (request_metadata r) k = Some v \<Longrightarrow> \<not> is_Auditable v"
  by (auto simp: request_metadata_lookup split: if_splits)

lemma visit_request_metadata:
  assumes d: "distinct (map fst xs)" and m: "fmap_of_list xs = request_metadata r"
  shows "length xs \<le> 4" and "\<forall>x \<in> set xs. \<not> is_Auditable (snd x)"
proof -
  have "length xs = card (set (map fst xs))"
    using distinct_card [OF d] by simp
  also have "\<dots> = fcard (fmdom (fmap_of_list xs))"
    by (simp add: fcard.rep_eq fset_of_list.rep_eq)
  also have "\<dots> \<le> fcard {|''http_method'', ''request_url'', ''user_agent'', ''request_id''|}"
    unfolding m by (rule fcard_mono [OF request_metadata_dom])
  also have "\<dots> \<le> 4"
    by (simp add: fcard_finsert_if fcard_fempty)
  finally show "length xs \<le> 4" .
  show "\<forall>x \<in> set xs. \<not> is_Auditable (snd x)"
  proof
    fix x assume "x \<in> set xs"
    then have "map_of xs (fst x) = Some (snd x)"
      using d by simp
    then have "fmlookup (request_metadata r) (fst x) = Some (snd x)"
      by (simp add: m [symmetric] fmlookup_of_list)
    then show "\<not> is_Auditable (snd x)" by (rule request_metadata_literal)
  qed
qed

lemma NewEventWithHTTP_result:
  assumes d: "distinct (map fst (order (request_metadata r)))"
    and m: "fmap_of_list (order (request_metadata r)) = request_metadata r"
  shows "NewEventWithHTTP order hostname now action actionType r w =
     Return (SetLocation (fst (NewEvent hostname now action actionType w)) (RemoteAddr r),
             (snd (NewEvent hostname now action actionType w))
               \<lparr>heap := (heap (snd (NewEvent hostname now action actionType w)))
                   (next_addr w := request_metadata r)\<rparr>)"
proof -
  let ?xs = "order (request_metadata r)"
  obtain ev0 w0 where n: "NewEvent hostname now action actionType w = (ev0, w0)"
    by (cases "NewEvent hostname now action actionType w")
  let ?ev = "SetLocation ev0 (RemoteAddr r)"
  from n have a: "Metadata ?ev = Some (next_addr w)" and h: "heap w0 (next_addr w) = fmempty"
    by (auto simp: NewEvent_def make_map_def SetLocation_def Let_def)
  from h have l: "len w0 (Some (next_addr w)) = 0"
    by (simp add: len_Some fcard_fempty)
  have "AddMetadata ?ev ?xs w0 =
      Return (None, w0\<lparr>heap := (heap w0)(next_addr w :=
          heap w0 (next_addr w) ++\<^sub>f fmap_of_list (rev ?xs))\<rparr>)"
    using visit_request_metadata [OF d m] l
    by (intro AddMetadata_literals [OF a]) simp_all
  moreover have "heap w0 (next_addr w) ++\<^sub>f fmap_of_list (rev ?xs) = request_metadata r"
    by (simp add: h fmap_of_list_rev_distinct [OF d] m)
  ultimately have "AddMetadata ?ev ?xs w0 =
      Return (None, w0\<lparr>heap := (heap w0)(next_addr w := request_metadata r)\<rparr>)"
    by simp
  then show ?thesis
    by (simp add: NewEventWithHTTP_def n)
qed

text \<open>
  C6. For every request and every order in which the runtime visits the entries of the
  local map, \<open>NewEventWithHTTP\<close> returns an event whose location is the remote address
  of the request and whose metadata holds \<^verbatim>\<open>http_method\<close> and \<^verbatim>\<open>request_url\<close>;
  \<^verbatim>\<open>user_agent\<close> and \<^verbatim>\<open>request_id\<close> are bound exactly when the header lookup gives a
  non-empty string, and no other key is present. With neither header the metadata has
  exactly the two keys \<^verbatim>\<open>http_method\<close> and \<^verbatim>\<open>request_url\<close>.
\<close>

theorem NewEventWithHTTP_seeds_request_metadata:
  assumes "distinct (map fst (order (request_metadata r)))"
    and "fmap_of_list (order (request_metadata r)) = request_metadata r"
  shows "\<exists>event w'.
     NewEventWithHTTP order hostname now action actionType r w = Return (event, w') \<and>
     Location event = RemoteAddr r \<and> Action event = action \<and> ActionType event = actionType \<and>
     OccuredAt event = now \<and> Metadata event = Some (next_addr w) \<and>
     fmlookup (heap w' (next_addr w)) ''http_method'' = Some (VString (Method r)) \<and>
     fmlookup (heap w' (next_addr w)) ''request_url'' = Some (VString (URL_String r)) \<and>
     fmlookup (heap w' (next_addr w)) ''user_agent'' =
       (if Header_Get r ''User-Agent'' = [] then None
        else Some (VString (Header_Get r ''User-Agent''))) \<and>
     fmlookup (heap w' (next_addr w)) ''request_id'' =
       (if Header_Get r ''X-Request-ID'' = [] then None
        else Some (VString (Header_Get r ''X-Request-ID''))) \<and>
     fmdom (heap w' (next_addr w)) |\<subseteq>|
       {|''http_method'', ''request_url'', ''user_agent'', ''request_id''|} \<and>
     (Header_Get r ''User-Agent'' = [] \<and> Header_Get r ''X-Request-ID'' = [] \<longrightarrow>
        fmdom (heap w' (next_addr w)) = {|''http_method'', ''request_url''|})"
proof -
  have "Header_Get r ''User-Agent'' = [] \<and> Header_Get r ''X-Request-ID'' = [] \<longrightarrow>
        fmdom (request_metadata r) = {|''http_method'', ''request_url''|}"
    by (simp add: request_metadata_def Let_def)
  then show ?thesis
    unfolding NewEventWithHTTP_result [where order = order and r = r, OF assms]
    using request_metadata_dom [of r]
    by (simp add: request_metadata_lookup NewEvent_def make_map_def SetLocation_def Let_def)
qed

lemma order_request_example:
  "order_example (request_metadata request_example) =
     [(''request_url'', VString ''http://localhost/tweet/update''), (''http_method'', VString ''PUT'')]"
  by (simp add: order_example_def request_metadata_lookup)
    (simp add: request_example_def)

text \<open>
  A request without headers, visited in the order \<^verbatim>\<open>request_url\<close>, \<^verbatim>\<open>http_method\<close>.
\<close>

theorem NewEventWithHTTP_seeds_request_metadata_witness:
  "distinct (map fst (order_example (request_metadata request_example))) \<and>
   fmap_of_list (order_example (request_metadata request_example)) = request_metadata request_example \<and>
   (\<exists>event w'.
      NewEventWithHTTP order_example (Inr ''host'') 0 ''user.login'' Create request_example empty_world
        = Return (event, w') \<and>
      Location event = ''172.31.255.255'' \<and> Metadata event = Some 0 \<and>
      fmlookup (heap w' 0) ''http_method'' = Some (VString ''PUT'') \<and>
      fmlookup (heap w' 0) ''request_url'' = Some (VString ''http://localhost/tweet/update'') \<and>
      fmlookup (heap w' 0) ''user_agent'' = None \<and>
      fmlookup (heap w' 0) ''request_id'' = None \<and>
      fmdom (heap w' 0) = {|''http_method'', ''request_url''|})"
proof -
  have d: "distinct (map fst (order_example (request_metadata request_example)))"
    by (simp add: order_request_example)
  have n: "next_addr empty_world = 0" "Header_Get request_example ''User-Agent'' = []"
    "Header_Get request_example ''X-Request-ID'' = []" "RemoteAddr request_example = ''172.31.255.255''"
    "Method request_example = ''PUT''" "URL_String request_example = ''http://localhost/tweet/update''"
    by (simp_all add: empty_world_def request_example_def)
  have m: "fmap_of_list (order_example (request_metadata request_example)) = request_metadata request_example"
    by (rule fmap_ext) (simp add: order_request_example request_metadata_lookup n)
  show ?thesis
    using NewEventWithHTTP_seeds_request_metadata [where order = order_example
        and r = request_example and hostname = "Inr ''host''" and now = 0
        and action = "''user.login''" and actionType = Create and w = empty_world, OF d m] d m
    by (simp add: n) blast
qed

end
